theory Spec2Isabelle
  imports Complex_Main
begin

section \<open>JavaScript values as the component reads them\<close>

text \<open>
  A property that is absent or \<open>undefined\<close> is \<open>None\<close>. The three functions below are the
  \<open>!!x\<close> and \<open>if (x)\<close> tests of the source on a string, a number and a boolean; an
  array or object is truthy as soon as it is there.
\<close>

definition truthy_str :: "string option \<Rightarrow> bool" where
  "truthy_str v = (case v of None \<Rightarrow> False | Some s \<Rightarrow> s \<noteq> [])"

definition truthy_num :: "int option \<Rightarrow> bool" where
  "truthy_num v = (case v of None \<Rightarrow> False | Some n \<Rightarrow> n \<noteq> 0)"

definition truthy_bool :: "bool option \<Rightarrow> bool" where
  "truthy_bool v = (case v of None \<Rightarrow> False | Some b \<Rightarrow> b)"

definition truthy_obj :: "'a option \<Rightarrow> bool" where
  "truthy_obj v = (case v of None \<Rightarrow> False | Some _ \<Rightarrow> True)"

text \<open>A string in a template literal or a concatenation: \<open>undefined\<close> prints as such.\<close>

definition str_of :: "string option \<Rightarrow> string" where
  "str_of v = (case v of None \<Rightarrow> ''undefined'' | Some s \<Rightarrow> s)"

text \<open>The decimal digits of a number, as \<open>"" + n\<close> gives them for an integer.\<close>

definition digit_char :: "nat \<Rightarrow> char" where
  "digit_char n = ''0123456789'' ! (n mod 10)"

fun string_of_nat :: "nat \<Rightarrow> string" where
  "string_of_nat n =
     (if n < 10 then [digit_char n] else string_of_nat (n div 10) @ [digit_char n])"

declare string_of_nat.simps [simp del]

definition string_of_int :: "int \<Rightarrow> string" where
  "string_of_int i = (if i < 0 then CHR ''-'' # string_of_nat (nat (- i)) else string_of_nat (nat i))"

text \<open>\<open>Math.round\<close>: the nearest integer, a tie going up.\<close>

definition Math_round :: "real \<Rightarrow> int" where
  "Math_round x = \<lfloor>x + 1 / 2\<rfloor>"

section \<open>RestClient\<close>

datatype js_error = Error string | TypeError | SyntaxError

record RestError =
  url :: string
  code :: string
  message :: "string option"

text \<open>
  What the \<open>rest\<close> library hands to the callbacks, as far as \<open>request\<close> and \<open>asRestError\<close>
  read it: \<open>response['error']\<close>, \<open>response['status']\<close> with its \<open>code\<close> and \<open>text\<close>, and
  \<open>response.entity\<close>.
\<close>

record Status =
  status_code :: "int option"
  status_text :: "string option"

record Response =
  error :: "string option"
  status :: "Status option"
  entity :: "string option"

text \<open>
  The outcome of \<open>client(request)\<close>: fulfilled with a response, or rejected with whatever
  the library rejects with (\<open>asRestError\<close> tests it with \<open>!!response\<close>).
\<close>

datatype client_result = Fulfilled Response | Failed "Response option"

definition CHECK_CONSOLE :: string where
  "CHECK_CONSOLE = ''Check JavaScript console and/or web traffic for more details.''"

definition asRestError :: "string \<Rightarrow> Response option \<Rightarrow> RestError" where
  "asRestError u response =
     (case response of
        None \<Rightarrow> \<lparr>url = u, code = ''unknown'', message = Some CHECK_CONSOLE\<rparr>
      | Some r \<Rightarrow>
          if truthy_str (error r)
          then \<lparr>url = u, code = str_of (error r), message = Some CHECK_CONSOLE\<rparr>
          else (case status r of
                  None \<Rightarrow> \<lparr>url = u, code = ''unknown'', message = Some CHECK_CONSOLE\<rparr>
                | Some st \<Rightarrow>
                    (case status_code st of
                       None \<Rightarrow> \<lparr>url = u, code = ''unknown'', message = Some CHECK_CONSOLE\<rparr>
                     | Some c \<Rightarrow>
                         if c = 0
                         then \<lparr>url = u, code = ''unknown'', message = Some CHECK_CONSOLE\<rparr>
                         else \<lparr>url = u, code = string_of_int c,
                                message =
                                  (if c = 404
                                   then Some (str_of (status_text st) @
                                     ''Not found or not authenticated or not authorized.'')
                                   else status_text st)\<rparr>)))"

text \<open>An exception object has neither an \<open>error\<close> nor a \<open>status\<close> property.\<close>

definition thrown :: "js_error \<Rightarrow> Response option" where
  "thrown e = Some \<lparr>error = None, status = None, entity = None\<rparr>"

text \<open>
  The callback of \<open>client(request).then\<close>. It resolves the promise (\<open>Inr (Inr json)\<close>),
  rejects it (\<open>Inr (Inl e)\<close>) or throws (\<open>Inl\<close>): a \<open>TypeError\<close> when the response has no
  status to read the code of, a \<open>SyntaxError\<close> when \<open>JSON.parse\<close> throws. \<open>JSON.parse\<close> is
  the parameter \<open>parse\<close>, \<open>None\<close> where it throws.
\<close>

definition on_response ::
  "(string \<Rightarrow> 'j option) \<Rightarrow> string \<Rightarrow> Response \<Rightarrow> js_error + (RestError + 'j)" where
  "on_response parse u response =
     (case status response of
        None \<Rightarrow> Inl TypeError
      | Some st \<Rightarrow>
          if status_code st = Some 200 \<and> truthy_str (entity response)
          then (case parse (str_of (entity response)) of
                  None \<Rightarrow> Inl SyntaxError
                | Some jsonEntity \<Rightarrow> Inr (Inr jsonEntity))
          else Inr (Inl (asRestError u (Some response))))"

text \<open>
  \<open>request\<close>: \<open>Inr\<close> is the value the promise resolves with, \<open>Inl\<close> the error it rejects
  with. What the callback throws goes to the \<open>catch\<close> callback, like a rejection of the
  library.
\<close>

definition request :: "(string \<Rightarrow> 'j option) \<Rightarrow> string \<Rightarrow> client_result \<Rightarrow> RestError + 'j" where
  "request parse u res =
     (case res of
        Fulfilled response \<Rightarrow>
          (case on_response parse u response of
             Inl e \<Rightarrow> Inl (asRestError u (thrown e))
           | Inr outcome \<Rightarrow> outcome)
      | Failed errorResponse \<Rightarrow> Inl (asRestError u errorResponse))"

text \<open>
  \<open>JSON.parse\<close> where this development evaluates it: a text whose first character after
  white space cannot begin a JSON value is a syntax error. On any other text the model
  lets the text stand for its value; no theorem below reads that value.
\<close>

definition json_space :: "char \<Rightarrow> bool" where
  "json_space c = (c \<in> set [CHR '' '', CHR 0x09, CHR 0x0A, CHR 0x0D])"

definition JSON_parse :: "string \<Rightarrow> string option" where
  "JSON_parse s =
     (case dropWhile json_space s of
        [] \<Rightarrow> None
      | c # _ \<Rightarrow> if c \<in> set (CHR 0x22 # ''{[-0123456789tfn'') then Some s else None)"

section \<open>The collaborators of the component\<close>

text \<open>
  Modelled from the spec: the module \<open>Styles\<close> is not among the sources. The spec names the
  four display classes success, warning, error and none.
\<close>

definition STATUS_SUCCESS :: string where "STATUS_SUCCESS = ''success''"
definition STATUS_WARN :: string where "STATUS_WARN = ''warning''"
definition STATUS_ERROR :: string where "STATUS_ERROR = ''error''"
definition STATUS_NONE :: string where "STATUS_NONE = ''none''"

text \<open>
  Modelled from the spec: the module \<open>JenkinsClient\<close> is not among the sources. Its build
  classification is the enum \<open>{success, warning, error, none/unknown}\<close>.
\<close>

datatype JenkinsBuildStatus = SUCCESS | WARN | ERROR | UNKNOWN

text \<open>
  Modelled from the spec: a child reference of a folder, a build reference, and the two
  responses of \<open>JenkinsClient\<close>. A job response has the single-job shape (\<open>lastBuild\<close>,
  \<open>builds[]\<close>) or the folder shape (\<open>jobs[]\<close>); the classification derives from the upstream
  result and the in-progress flag. The component reads \<open>displayName\<close>, \<open>url\<close>,
  \<open>lastBuild\<close>, \<open>builds\<close> and \<open>jobs\<close> of a job and \<open>timestamp\<close> of a build itself; a build
  has its in-progress flag and the fields its progress is computed from.
\<close>

record JenkinsJobRefResponse =
  ref_name :: "string option"
  ref_url :: "string option"

record JenkinsBuildRef =
  build_number :: int
  build_url :: string

record JenkinsJobResponse =
  displayName :: "string option"
  job_url :: "string option"
  lastBuild :: "JenkinsBuildRef option"
  builds :: "JenkinsBuildRef list option"
  job_jobs :: "JenkinsJobRefResponse list option"
  job_result :: "string option"
  job_building :: "bool option"

record JenkinsBuildResponse =
  timestamp :: "int option"
  build_building :: "bool option"
  duration :: "int option"
  estimatedDuration :: "int option"

text \<open>
  Modelled from the spec: the helper functions of \<open>JenkinsClient\<close>. A response is a single
  job when it has a build list and a folder when it has child jobs; \<open>getBuildStatus\<close> maps
  the upstream result and the in-progress flag to the classification, by a table the spec
  does not give (the parameter \<open>classify\<close>); \<open>getProgressPercent\<close> computes a progress value
  from the build, by a formula the spec does not give (the parameter \<open>progress\<close>).
\<close>

definition isSingleJob :: "JenkinsJobResponse \<Rightarrow> bool" where
  "isSingleJob job = truthy_obj (builds job)"

definition isMultiJob :: "JenkinsJobResponse \<Rightarrow> bool" where
  "isMultiJob job = truthy_obj (job_jobs job)"

definition isBuilding :: "JenkinsJobResponse \<Rightarrow> bool" where
  "isBuilding job = truthy_bool (job_building job)"

definition getBuildStatus ::
  "(string option \<Rightarrow> bool \<Rightarrow> JenkinsBuildStatus) \<Rightarrow> JenkinsJobResponse \<Rightarrow> JenkinsBuildStatus" where
  "getBuildStatus classify job = classify (job_result job) (isBuilding job)"

section \<open>JenkinsJobComponent\<close>

record JobProperties =
  server :: "string option"
  id :: "string option"
  name :: "string option"

text \<open>
  The state object of the component. It is one object for the three interfaces
  \<open>LoadingState\<close>, \<open>JobState\<close> and \<open>MultiJobState\<close>: \<open>setState\<close> merges the keys of its
  argument into it.
\<close>

record CompState =
  name :: "string option"
  loadStatus :: "string option"
  url :: "string option"
  buildCount :: "nat option"
  buildStatus :: "string option"
  building :: "bool option"
  buildProgress :: "int option"
  buildTimestamp :: "int option"
  jobs :: "JenkinsJobRefResponse list option"

definition LOADING :: string where "LOADING = ''loading''"
definition LOADING_DONE :: string where "LOADING_DONE = ''loading-done''"
definition LOADING_ERROR :: string where "LOADING_ERROR = ''loading-error''"

subsection \<open>constructor\<close>

text \<open>
  The message of the error holds \<open>JSON.stringify(props)\<close>; the model keeps the fixed part.
\<close>

definition constructor :: "JobProperties \<Rightarrow> js_error + JobProperties" where
  "constructor props =
     (if \<not> truthy_str (server props) \<or> \<not> truthy_str (id props)
      then Inl (Error ''Missing property 'server' and/or 'name': '')
      else Inr props)"

subsection \<open>asStatusStyle\<close>

definition asStatusStyle ::
  "(string option \<Rightarrow> bool \<Rightarrow> JenkinsBuildStatus) \<Rightarrow> JenkinsJobResponse \<Rightarrow> string" where
  "asStatusStyle classify job =
     (let status = getBuildStatus classify job in
      if status = SUCCESS then STATUS_SUCCESS
      else if status = WARN then STATUS_WARN
      else if status = ERROR then STATUS_ERROR
      else STATUS_NONE)"

subsection \<open>render\<close>

text \<open>
  What \<open>render\<close> returns: the tile of \<open>renderJob\<close> (class name, link target, label, and
  the progress bar with its value when there is one), the placeholder of \<open>renderLoading\<close>
  (class name and label), or the \<open>div\<close> of \<open>renderMultiJob\<close> with the properties of the
  child components it creates. The \<open>title\<close> of the tile, a date in the browser's locale, is
  left out.
\<close>

datatype element =
    JobTile (className: string) (href: "string option") (label: "string option")
      (progressBar: "int option option")
  | LoadingTile string "string option"
  | MultiJobDiv "JobProperties list"

definition renderLoading :: "CompState \<Rightarrow> element" where
  "renderLoading job = LoadingTile (''status '' @ str_of (loadStatus job)) (name job)"

definition renderMultiJob :: "JobProperties \<Rightarrow> CompState \<Rightarrow> js_error + element" where
  "renderMultiJob props js =
     (case jobs js of
        None \<Rightarrow> Inl TypeError
      | Some items \<Rightarrow>
          Inr (MultiJobDiv
            (map (\<lambda>item. \<lparr>server = server props,
                            id = Some (str_of (id props) @ ''/job/'' @ str_of (ref_name item)),
                            JobProperties.name = None\<rparr>) items)))"

definition ageIntervalMillis :: int where
  "ageIntervalMillis = 6 * 60 * 60 * 1000"

text \<open>The value of the variable \<open>age\<close> of \<open>renderJob\<close> after its first block; \<open>None\<close> is \<open>null\<close>.\<close>

definition age_of :: "int \<Rightarrow> CompState \<Rightarrow> int option" where
  "age_of now job =
     (if \<not> truthy_bool (building job) \<and> truthy_num (buildTimestamp job)
      then (case buildTimestamp job of
              None \<Rightarrow> None
            | Some ts \<Rightarrow>
                (let age = Math_round (real_of_int (now - ts) / real_of_int ageIntervalMillis);
                     age = (if age < 0 then 0 else age);
                     age = (if age > 5 then 5 else age)
                 in Some age))
      else None)"

definition renderJob :: "int \<Rightarrow> CompState \<Rightarrow> element" where
  "renderJob now job =
     (let age = age_of now job;
          className = ''status '' @ str_of (loadStatus job) @ '' '' @ str_of (buildStatus job);
          className = (if truthy_bool (building job) then className @ '' building'' else className);
          className = (case age of
                         None \<Rightarrow> className
                       | Some a \<Rightarrow> if a \<noteq> 0 then className @ '' age-'' @ string_of_int a
                                  else className);
          progressBar = (if truthy_bool (building job) then Some (buildProgress job) else None)
      in JobTile className (url job) (name job) progressBar)"

text \<open>\<open>render\<close> at the time \<open>now\<close>; reading a field of a state that is not there throws.\<close>

definition render :: "int \<Rightarrow> JobProperties \<Rightarrow> CompState option \<Rightarrow> js_error + element" where
  "render now props st =
     (case st of
        None \<Rightarrow> Inl TypeError
      | Some s \<Rightarrow>
          if truthy_str (buildStatus s) then Inr (renderJob now s)
          else if truthy_obj (jobs s) then renderMultiJob props s
          else Inr (renderLoading s))"

subsection \<open>The state object and setState\<close>

text \<open>The four object literals the component passes to \<open>setState\<close>, with their keys.\<close>

datatype state_literal =
    LoadingLit "string option" string
  | JobLit "string option" "string option" string nat string bool "int option" "int option"
  | MultiJobLit "string option" string "JenkinsJobRefResponse list option"
  | ErrorLit "string option" string string

definition no_state :: CompState where
  "no_state = \<lparr>name = None, loadStatus = None, url = None, buildCount = None,
     buildStatus = None, building = None, buildProgress = None, buildTimestamp = None,
     jobs = None\<rparr>"

text \<open>The shallow merge of \<open>setState\<close>: the keys of the literal replace those of the state.\<close>

fun merge :: "CompState \<Rightarrow> state_literal \<Rightarrow> CompState" where
  "merge s (LoadingLit n ls) = s\<lparr>name := n, loadStatus := Some ls\<rparr>"
| "merge s (JobLit n u ls bc bs b bp bt) =
     s\<lparr>name := n, url := u, loadStatus := Some ls, buildCount := Some bc,
       buildStatus := Some bs, building := Some b, buildProgress := bp, buildTimestamp := bt\<rparr>"
| "merge s (MultiJobLit n ls js) = s\<lparr>name := n, loadStatus := Some ls, jobs := js\<rparr>"
| "merge s (ErrorLit n ls bs) = s\<lparr>name := n, loadStatus := Some ls, buildStatus := Some bs\<rparr>"

subsection \<open>The component in its window\<close>

text \<open>
  The instance (\<open>props\<close>, \<open>state\<close>, \<open>_triggerHandle\<close>) together with what it has put into
  the event loop: the timeouts of \<open>window.setTimeout\<close> that have not fired, each with its
  handle and delay, and the \<open>loadJob\<close> promises that have not settled, each with the
  \<open>interval\<close> its callbacks captured. \<open>nextHandle\<close> is the handle the next \<open>setTimeout\<close>
  returns. The callbacks run whether the component is still mounted or not: nothing in
  the source holds them back. React drops a \<open>setState\<close> on an unmounted component:
  \<open>unmounted\<close> is React's mark of that, set when React unmounts the component.
\<close>

record World =
  props :: JobProperties
  state :: "CompState option"
  triggerHandle :: "nat option"
  timers :: "(nat \<times> real) list"
  nextHandle :: nat
  pending :: "real list"
  unmounted :: bool

definition refreshInterval :: real where
  "refreshInterval = 5000"

definition created :: "JobProperties \<Rightarrow> World" where
  "created p = \<lparr>props = p, state = None, triggerHandle = None, timers = [], nextHandle = 1,
     pending = [], unmounted = False\<rparr>"

definition setState :: "World \<Rightarrow> state_literal \<Rightarrow> World" where
  "setState w lit =
     (if unmounted w then w
      else w\<lparr>state := Some (merge (case state w of None \<Rightarrow> no_state | Some s \<Rightarrow> s) lit)\<rparr>)"

definition setTimeout :: "World \<Rightarrow> real \<Rightarrow> World" where
  "setTimeout w delay =
     w\<lparr>triggerHandle := Some (nextHandle w),
       timers := timers w @ [(nextHandle w, delay)],
       nextHandle := Suc (nextHandle w)\<rparr>"

definition clearTimeout :: "World \<Rightarrow> nat option \<Rightarrow> World" where
  "clearTimeout w handle = w\<lparr>timers := filter (\<lambda>tm. Some (fst tm) \<noteq> handle) (timers w)\<rparr>"

definition getDisplayNameFromPropOrState :: "World \<Rightarrow> string option" where
  "getDisplayNameFromPropOrState w =
     (case state w of
        None \<Rightarrow>
          if truthy_str (JobProperties.name (props w)) then JobProperties.name (props w)
          else id (props w)
      | Some s \<Rightarrow>
          if truthy_str (name s) then name s
          else if truthy_str (JobProperties.name (props w)) then JobProperties.name (props w)
          else id (props w))"

text \<open>
  The tables of \<open>JenkinsClient\<close> the spec does not give: the classification of a result and
  the progress of a build.
\<close>

record tables =
  classify :: "string option \<Rightarrow> bool \<Rightarrow> JenkinsBuildStatus"
  progress :: "JenkinsBuildResponse \<Rightarrow> int option"

datatype rejection = Thrown js_error | RestFailure RestError

text \<open>
  \<open>loadJob\<close>, given how \<open>client.read\<close> and, for a single job, \<open>client.readBuild\<close> settle.
  \<open>Inr\<close> is the state the promise resolves with, \<open>Inl\<close> the reason it rejects with. The
  second callback of \<open>then\<close> handles a rejection of \<open>read\<close> only.
\<close>

definition loadJob ::
  "tables \<Rightarrow> World \<Rightarrow> RestError + JenkinsJobResponse \<Rightarrow> RestError + JenkinsBuildResponse
     \<Rightarrow> rejection + state_literal" where
  "loadJob t w rd bd =
     (case rd of
        Inl err \<Rightarrow> Inr (ErrorLit (getDisplayNameFromPropOrState w) LOADING_ERROR STATUS_NONE)
      | Inr job \<Rightarrow>
          (let n = (if truthy_str (JobProperties.name (props w)) then JobProperties.name (props w)
                    else displayName job);
               n = (if \<not> truthy_str n then id (props w) else n)
           in if isSingleJob job
              then (case bd of
                      Inl err \<Rightarrow> Inl (RestFailure err)
                    | Inr build \<Rightarrow>
                        Inr (JobLit n (job_url job) LOADING_DONE
                          (case builds job of None \<Rightarrow> 0 | Some bs \<Rightarrow> length bs)
                          (asStatusStyle (classify t) job) (isBuilding job)
                          (progress t build) (timestamp build)))
              else if isMultiJob job
              then Inr (MultiJobLit (getDisplayNameFromPropOrState w) LOADING_DONE (job_jobs job))
              else Inl (Thrown (Error ''Unsupported format: ''))))"

text \<open>
  \<open>triggerLoadJob\<close> up to the call of \<open>loadJob\<close>; \<open>rnd\<close> is what \<open>Math.random()\<close> returns.
\<close>

definition triggerLoadJob :: "World \<Rightarrow> real \<Rightarrow> World" where
  "triggerLoadJob w rnd =
     (let interval = refreshInterval + rnd * 500;
          w = setState w (LoadingLit (getDisplayNameFromPropOrState w) LOADING)
      in w\<lparr>pending := pending w @ [interval]\<rparr>)"

text \<open>
  The callbacks of \<open>triggerLoadJob\<close> when the promise of \<open>loadJob\<close> settles: \<open>then\<close> sets the
  state and schedules the next call, \<open>catch\<close> schedules the next call.
\<close>

definition settled :: "tables \<Rightarrow> World \<Rightarrow> real \<Rightarrow> RestError + JenkinsJobResponse
     \<Rightarrow> RestError + JenkinsBuildResponse \<Rightarrow> World" where
  "settled t w interval rd bd =
     (case loadJob t w rd bd of
        Inr st \<Rightarrow> setTimeout (setState w st) interval
      | Inl reason \<Rightarrow> setTimeout w interval)"

definition componentWillMount :: "World \<Rightarrow> real \<Rightarrow> World" where
  "componentWillMount w rnd = triggerLoadJob w rnd"

definition componentWillUnmount :: "World \<Rightarrow> World" where
  "componentWillUnmount w = clearTimeout w (triggerHandle w)"

text \<open>
  What can happen to the component: React mounts and unmounts it, a fetch settles, a
  timeout fires. An event that is not enabled (no fetch in flight, no such timeout) leaves
  the world as it is. On an unmount React calls \<open>componentWillUnmount\<close> and marks the
  component.
\<close>

datatype event =
    Mount real
  | Unmount
  | FetchDone "RestError + JenkinsJobResponse" "RestError + JenkinsBuildResponse"
  | TimerFire nat real

fun step :: "tables \<Rightarrow> World \<Rightarrow> event \<Rightarrow> World" where
  "step t w (Mount rnd) = componentWillMount w rnd"
| "step t w Unmount = (componentWillUnmount w)\<lparr>unmounted := True\<rparr>"
| "step t w (FetchDone rd bd) =
     (case pending w of
        [] \<Rightarrow> w
      | interval # rest \<Rightarrow> settled t (w\<lparr>pending := rest\<rparr>) interval rd bd)"
| "step t w (TimerFire h rnd) =
     (if h \<in> fst ` set (timers w)
      then triggerLoadJob (w\<lparr>timers := filter (\<lambda>tm. fst tm \<noteq> h) (timers w)\<rparr>) rnd
      else w)"

definition run :: "tables \<Rightarrow> World \<Rightarrow> event list \<Rightarrow> World" where
  "run t w es = foldl (step t) w es"

section \<open>Definitions for the statements\<close>

text \<open>
  The closed form of the age of \<open>renderJob\<close> for an elapsed time in milliseconds; the
  lemma \<open>age_of_age_bucket\<close> below proves that \<open>age_of\<close> computes it.
\<close>

definition age_bucket :: "int \<Rightarrow> int" where
  "age_bucket e = max 0 (min 5 ((2 * e + ageIntervalMillis) div (2 * ageIntervalMillis)))"

text \<open>
  The CSS classes of a class name are its words between spaces; the age classes are those
  that begin with \<open>age-\<close>.
\<close>

fun split_on :: "char \<Rightarrow> string \<Rightarrow> string list" where
  "split_on c [] = [[]]"
| "split_on c (x # xs) =
     (if x = c then [] # split_on c xs
      else (case split_on c xs of [] \<Rightarrow> [[x]] | w # ws \<Rightarrow> (x # w) # ws))"

definition class_list :: "string \<Rightarrow> string list" where
  "class_list cn = filter (\<lambda>w. w \<noteq> []) (split_on CHR '' '' cn)"

definition age_classes :: "string \<Rightarrow> string list" where
  "age_classes cn = filter (\<lambda>w. take 4 w = ''age-'') (class_list cn)"

text \<open>
  The load and build classes the component itself writes into its state.
\<close>

definition known_classes :: "CompState \<Rightarrow> bool" where
  "known_classes s =
     (loadStatus s \<in> {Some LOADING, Some LOADING_DONE, Some LOADING_ERROR}
      \<and> buildStatus s \<in> {None, Some STATUS_SUCCESS, Some STATUS_WARN, Some STATUS_ERROR,
            Some STATUS_NONE})"

definition state_known :: "World \<Rightarrow> bool" where
  "state_known w = (case state w of None \<Rightarrow> True | Some s \<Rightarrow> known_classes s)"

text \<open>
  Polling cycles one after the other: each fetch settles as given, then the timeout it
  scheduled fires. The handles of \<open>setTimeout\<close> count up from \<open>h\<close>.
\<close>

fun cycles ::
  "nat \<Rightarrow> ((RestError + JenkinsJobResponse) \<times> (RestError + JenkinsBuildResponse) \<times> real) list
     \<Rightarrow> event list" where
  "cycles h [] = []"
| "cycles h ((rd, bd, rnd) # fs) = FetchDone rd bd # TimerFire h rnd # cycles (Suc h) fs"

subsection \<open>Concrete inputs\<close>

definition example_tables :: tables where
  "example_tables =
     \<lparr>classify = (\<lambda>result b.
          if result = Some ''SUCCESS'' then SUCCESS
          else if result = Some ''UNSTABLE'' then WARN
          else if result = Some ''FAILURE'' then ERROR
          else UNKNOWN),
      progress = (\<lambda>build. None)\<rparr>"

definition example_props :: JobProperties where
  "example_props = \<lparr>server = Some ''ci'', id = Some ''team'', JobProperties.name = None\<rparr>"

definition example_error :: RestError where
  "example_error = \<lparr>RestError.url = ''http://ci/job/team/api/json'', code = ''unknown'',
     message = Some CHECK_CONSOLE\<rparr>"

text \<open>A folder with two children, a response that is neither job nor folder, a job, a build.\<close>

definition example_folder :: JenkinsJobResponse where
  "example_folder =
     \<lparr>displayName = Some ''Team'', job_url = Some ''http://ci/job/team/'', lastBuild = None,
      builds = None,
      job_jobs = Some [\<lparr>ref_name = Some ''app'', ref_url = None\<rparr>,
                       \<lparr>ref_name = Some ''lib'', ref_url = None\<rparr>],
      job_result = None, job_building = None\<rparr>"

definition example_view :: JenkinsJobResponse where
  "example_view =
     \<lparr>displayName = Some ''Team'', job_url = Some ''http://ci/job/team/'', lastBuild = None,
      builds = None, job_jobs = None, job_result = None, job_building = None\<rparr>"

definition example_job :: JenkinsJobResponse where
  "example_job =
     \<lparr>displayName = Some ''App'', job_url = Some ''http://ci/job/team/'',
      lastBuild = Some \<lparr>build_number = 7, build_url = ''http://ci/job/team/7/''\<rparr>,
      builds = Some [\<lparr>build_number = 7, build_url = ''http://ci/job/team/7/''\<rparr>],
      job_jobs = None, job_result = Some ''SUCCESS'', job_building = Some False\<rparr>"

definition example_build :: JenkinsBuildResponse where
  "example_build =
     \<lparr>timestamp = Some 1000, build_building = Some False, duration = Some 60000,
      estimatedDuration = Some 60000\<rparr>"


definition example_page :: Response where
  "example_page =
     \<lparr>error = None, status = Some \<lparr>status_code = Some 200, status_text = Some ''OK''\<rparr>,
      entity = Some ''<html>''\<rparr>"



section \<open>Numbers and strings\<close>

lemma Math_round_div:
  assumes "0 < i"
  shows "Math_round (real_of_int d / real_of_int i) = (2 * d + i) div (2 * i)"
proof -
  have "real_of_int d / real_of_int i + 1 / 2 = real_of_int (2 * d + i) / real_of_int (2 * i)"
    using assms by (simp add: field_simps)
  then show ?thesis
    unfolding Math_round_def by (simp only: floor_divide_of_int_eq)
qed



lemma string_of_int_digit:
  assumes "1 \<le> a" "a \<le> 5"
  shows "string_of_int a \<in> {''1'', ''2'', ''3'', ''4'', ''5''}"
proof -
  from assms have "a = 1 \<or> a = 2 \<or> a = 3 \<or> a = 4 \<or> a = 5" by arith
  then show ?thesis
    by (auto simp add: string_of_int_def string_of_nat.simps digit_char_def)
qed

section \<open>The constructor\<close>

text \<open>
  Claim C9. The constructor throws an Error when \<open>server\<close> or \<open>id\<close> is missing or falsy
  (for a string: \<open>undefined\<close> or empty), and returns the component with its properties
  when both are non-empty strings.
\<close>

theorem constructor_checks_server_and_id:
  "(if truthy_str (server p) \<and> truthy_str (id p)
    then constructor p = Inr p
    else \<exists>msg. constructor p = Inl (Error msg))
   \<and> (truthy_str (server p) \<longleftrightarrow> (\<exists>s. server p = Some s \<and> s \<noteq> []))
   \<and> (truthy_str (id p) \<longleftrightarrow> (\<exists>s. id p = Some s \<and> s \<noteq> []))"
  by (auto simp add: constructor_def truthy_str_def split: option.splits)

text \<open>
  Properties with both fields construct; without a server, with an empty id, or with no
  id at all, the constructor throws.
\<close>

theorem constructor_checks_server_and_id_witness:
  "constructor example_props = Inr example_props
   \<and> (\<exists>msg. constructor (example_props\<lparr>server := None\<rparr>) = Inl (Error msg))
   \<and> (\<exists>msg. constructor (example_props\<lparr>id := Some []\<rparr>) = Inl (Error msg))
   \<and> (\<exists>msg. constructor (example_props\<lparr>id := None\<rparr>) = Inl (Error msg))"
  using constructor_checks_server_and_id [of example_props]
    constructor_checks_server_and_id [of "example_props\<lparr>server := None\<rparr>"]
    constructor_checks_server_and_id [of "example_props\<lparr>id := Some []\<rparr>"]
    constructor_checks_server_and_id [of "example_props\<lparr>id := None\<rparr>"]
  by (simp add: example_props_def truthy_str_def)

section \<open>Status classification\<close>

text \<open>
  Claim C4. For every single-job response \<open>asStatusStyle\<close> returns one of the four
  display classes success, warning, error and none, which are four different classes;
  and two responses with the same result and the same in-progress flag get the same
  class, whatever the table of \<open>getBuildStatus\<close> is.
\<close>

theorem asStatusStyle_one_of_four:
  "asStatusStyle table job \<in> {STATUS_SUCCESS, STATUS_WARN, STATUS_ERROR, STATUS_NONE}
   \<and> distinct [STATUS_SUCCESS, STATUS_WARN, STATUS_ERROR, STATUS_NONE]
   \<and> (job_result job = job_result job' \<and> isBuilding job = isBuilding job'
        \<longrightarrow> asStatusStyle table job = asStatusStyle table job')"
  by (simp add: asStatusStyle_def getBuildStatus_def Let_def STATUS_SUCCESS_def STATUS_WARN_def
      STATUS_ERROR_def STATUS_NONE_def)

text \<open>Two successful jobs with different names and build lists get the class success.\<close>

theorem asStatusStyle_one_of_four_witness:
  "job_result example_job = job_result (example_job\<lparr>displayName := Some ''Other'', builds := Some []\<rparr>)
   \<and> isBuilding example_job = isBuilding (example_job\<lparr>displayName := Some ''Other'', builds := Some []\<rparr>)
   \<and> asStatusStyle (classify example_tables) example_job = STATUS_SUCCESS
   \<and> asStatusStyle (classify example_tables)
        (example_job\<lparr>displayName := Some ''Other'', builds := Some []\<rparr>) = STATUS_SUCCESS"
  using asStatusStyle_one_of_four [of "classify example_tables" example_job
      "example_job\<lparr>displayName := Some ''Other'', builds := Some []\<rparr>"]
  by (simp add: example_job_def example_tables_def asStatusStyle_def getBuildStatus_def
      isBuilding_def)

section \<open>The age of a tile\<close>

lemma age_of_age_bucket:
  assumes "\<not> truthy_bool (building job)" "buildTimestamp job = Some ts" "ts \<noteq> 0"
  shows "age_of now job = Some (age_bucket (now - ts))"
proof -
  have "0 < ageIntervalMillis" by (simp add: ageIntervalMillis_def)
  then have "Math_round (real_of_int (now - ts) / real_of_int ageIntervalMillis)
      = (2 * (now - ts) + ageIntervalMillis) div (2 * ageIntervalMillis)"
    by (rule Math_round_div)
  then show ?thesis using assms
    by (simp add: age_of_def truthy_num_def age_bucket_def Let_def max_def min_def)
qed

lemma age_bucket_mono: "e \<le> e' \<Longrightarrow> age_bucket e \<le> age_bucket e'"
  unfolding age_bucket_def
  by (intro max.mono min.mono zdiv_mono1) (simp_all add: ageIntervalMillis_def)

lemma age_bucket_step:
  assumes "0 \<le> e"
  shows "age_bucket (e + ageIntervalMillis) = min 5 (age_bucket e + 1)"
proof -
  have pos: "0 < ageIntervalMillis" by (simp add: ageIntervalMillis_def)
  have "(2 * (e + ageIntervalMillis) + ageIntervalMillis) div (2 * ageIntervalMillis)
      = (2 * e + ageIntervalMillis) div (2 * ageIntervalMillis) + 1"
  proof -
    have "2 * (e + ageIntervalMillis) + ageIntervalMillis
        = (2 * e + ageIntervalMillis) + 2 * ageIntervalMillis" by simp
    moreover have "((2 * e + ageIntervalMillis) + 2 * ageIntervalMillis) div (2 * ageIntervalMillis)
        = (2 * e + ageIntervalMillis) div (2 * ageIntervalMillis) + 1"
      using pos by (intro div_add_self2) simp
    ultimately show ?thesis by (simp only:)
  qed
  moreover have "0 \<le> (2 * e + ageIntervalMillis) div (2 * ageIntervalMillis)"
    using assms pos by (simp add: pos_imp_zdiv_nonneg_iff)
  ultimately show ?thesis unfolding age_bucket_def by (simp add: max_def min_def)
qed

lemma age_of_range: "age_of now job = Some a \<Longrightarrow> 0 \<le> a \<and> a \<le> 5"
  by (auto simp add: age_of_def Let_def split: if_splits option.splits)

lemma age_of_building: "truthy_bool (building job) \<Longrightarrow> age_of now job = None"
  by (simp add: age_of_def)

lemma age_of_no_timestamp: "\<not> truthy_num (buildTimestamp job) \<Longrightarrow> age_of now job = None"
  by (simp add: age_of_def)

text \<open>
  Claim C6. For a job that is not building and has a build timestamp, \<open>renderJob\<close>
  computes an age between 0 and 5; of two such jobs, the one with the longer time since
  its last build has the greater or the same age (so the age is a function of that time,
  and monotone in it); and six hours (\<open>ageIntervalMillis\<close>) later the age is one more, up to 5.
\<close>

theorem age_monotone_and_clamped:
  assumes "\<not> truthy_bool (building job)" "buildTimestamp job = Some ts" "ts \<noteq> 0"
    and "\<not> truthy_bool (building job')" "buildTimestamp job' = Some ts'" "ts' \<noteq> 0"
  shows "\<exists>a a' b. age_of now job = Some a \<and> age_of now' job' = Some a'
      \<and> age_of (now + ageIntervalMillis) job = Some b
      \<and> 0 \<le> a \<and> a \<le> 5
      \<and> (now - ts \<le> now' - ts' \<longrightarrow> a \<le> a')
      \<and> (ts \<le> now \<longrightarrow> b = min 5 (a + 1))"
proof -
  have a: "age_of now job = Some (age_bucket (now - ts))"
    using assms(1-3) by (rule age_of_age_bucket)
  have a': "age_of now' job' = Some (age_bucket (now' - ts'))"
    using assms(4-6) by (rule age_of_age_bucket)
  have b: "age_of (now + ageIntervalMillis) job
      = Some (age_bucket ((now - ts) + ageIntervalMillis))"
    using age_of_age_bucket [OF assms(1-3), of "now + ageIntervalMillis"]
    by (simp add: algebra_simps)
  have range: "0 \<le> age_bucket (now - ts) \<and> age_bucket (now - ts) \<le> 5"
    using a by (rule age_of_range)
  have mono: "now - ts \<le> now' - ts' \<longrightarrow> age_bucket (now - ts) \<le> age_bucket (now' - ts')"
    by (simp add: age_bucket_mono)
  have stp: "ts \<le> now \<longrightarrow>
      age_bucket ((now - ts) + ageIntervalMillis) = min 5 (age_bucket (now - ts) + 1)"
    by (simp add: age_bucket_step)
  show ?thesis using a a' b range mono stp by simp
qed

text \<open>
  A build of timestamp 1000: seven hours later the age is 1, nineteen hours later it is
  3, and six hours after the seven it is 2.
\<close>

theorem age_monotone_and_clamped_witness:
  "\<not> truthy_bool (building (no_state\<lparr>buildTimestamp := Some 1000\<rparr>))
   \<and> buildTimestamp (no_state\<lparr>buildTimestamp := Some 1000\<rparr>) = Some 1000
   \<and> age_of 25201000 (no_state\<lparr>buildTimestamp := Some 1000\<rparr>) = Some 1
   \<and> age_of 68401000 (no_state\<lparr>buildTimestamp := Some 1000\<rparr>) = Some 3
   \<and> age_of (25201000 + ageIntervalMillis) (no_state\<lparr>buildTimestamp := Some 1000\<rparr>) = Some 2"
proof -
  let ?job = "no_state\<lparr>buildTimestamp := Some 1000\<rparr>"
  have h1: "\<not> truthy_bool (building ?job)" by (simp add: no_state_def truthy_bool_def)
  have h2: "buildTimestamp ?job = Some 1000" by simp
  have h3: "(1000 :: int) \<noteq> 0" by simp
  have v1: "age_of 25201000 ?job = Some 1"
    using age_of_age_bucket [OF h1 h2 h3, of 25201000]
    by (simp add: age_bucket_def ageIntervalMillis_def)
  have v2: "age_of 68401000 ?job = Some 3"
    using age_of_age_bucket [OF h1 h2 h3, of 68401000]
    by (simp add: age_bucket_def ageIntervalMillis_def)
  from age_monotone_and_clamped [OF h1 h2 h3 h1 h2 h3, of 25201000 68401000]
  have "age_of (25201000 + ageIntervalMillis) ?job = Some 2"
    using v1 v2 by auto
  then show ?thesis using h1 h2 v1 v2 by simp
qed

section \<open>The classes the component writes\<close>

lemmas world_defs = run_def componentWillMount_def componentWillUnmount_def triggerLoadJob_def
  settled_def loadJob_def setState_def setTimeout_def clearTimeout_def created_def
  getDisplayNameFromPropOrState_def refreshInterval_def no_state_def truthy_str_def truthy_obj_def
  isSingleJob_def isMultiJob_def Let_def

lemmas example_defs = example_tables_def example_props_def example_error_def example_folder_def
  example_view_def example_job_def example_build_def

lemma known_classes_merge:
  assumes "known_classes s"
    and "ls \<in> {LOADING, LOADING_DONE, LOADING_ERROR}"
    and "bs \<in> {STATUS_SUCCESS, STATUS_WARN, STATUS_ERROR, STATUS_NONE}"
  shows "known_classes (merge s (LoadingLit n ls))"
    and "known_classes (merge s (JobLit n u ls bc bs b bp bt))"
    and "known_classes (merge s (MultiJobLit n ls js))"
    and "known_classes (merge s (ErrorLit n ls bs))"
  using assms by (auto simp add: known_classes_def)

lemma known_classes_first:
  assumes "ls \<in> {LOADING, LOADING_DONE, LOADING_ERROR}"
    and "bs \<in> {STATUS_SUCCESS, STATUS_WARN, STATUS_ERROR, STATUS_NONE}"
  shows "known_classes (merge no_state (LoadingLit n ls))"
    and "known_classes (merge no_state (JobLit n u ls bc bs b bp bt))"
    and "known_classes (merge no_state (MultiJobLit n ls js))"
    and "known_classes (merge no_state (ErrorLit n ls bs))"
  using assms by (auto simp add: known_classes_def no_state_def)

lemma asStatusStyle_known:
  "asStatusStyle table job \<in> {STATUS_SUCCESS, STATUS_WARN, STATUS_ERROR, STATUS_NONE}"
  by (simp add: asStatusStyle_def Let_def)

lemma loadJob_known:
  assumes "loadJob t w rd bd = Inr lit"
  shows "(\<exists>n. lit = ErrorLit n LOADING_ERROR STATUS_NONE)
       \<or> (\<exists>n js. lit = MultiJobLit n LOADING_DONE js)
       \<or> (\<exists>n u bc bs b bp bt. lit = JobLit n u LOADING_DONE bc bs b bp bt
             \<and> bs \<in> {STATUS_SUCCESS, STATUS_WARN, STATUS_ERROR, STATUS_NONE})"
  using assms asStatusStyle_known
  by (auto simp add: loadJob_def Let_def split: sum.splits if_splits)

lemma state_known_setState:
  assumes "state_known w"
    and "(\<exists>n ls. lit = LoadingLit n ls \<and> ls \<in> {LOADING, LOADING_DONE, LOADING_ERROR})
       \<or> (\<exists>n. lit = ErrorLit n LOADING_ERROR STATUS_NONE)
       \<or> (\<exists>n js. lit = MultiJobLit n LOADING_DONE js)
       \<or> (\<exists>n u bc bs b bp bt. lit = JobLit n u LOADING_DONE bc bs b bp bt
             \<and> bs \<in> {STATUS_SUCCESS, STATUS_WARN, STATUS_ERROR, STATUS_NONE})"
  shows "state_known (setState w lit)"
proof (cases "state w")
  case None
  then show ?thesis using assms(2)
    by (auto simp add: state_known_def setState_def intro!: known_classes_first)
next
  case (Some s)
  then have "known_classes s" using assms(1) by (simp add: state_known_def)
  then show ?thesis using Some assms(2)
    by (auto simp add: state_known_def setState_def intro!: known_classes_merge)
qed

lemma state_known_triggerLoadJob: "state_known w \<Longrightarrow> state_known (triggerLoadJob w rnd)"
proof -
  assume w: "state_known w"
  have "state_known (setState w (LoadingLit (getDisplayNameFromPropOrState w) LOADING))"
    using w by (rule state_known_setState) simp
  then show ?thesis by (simp add: triggerLoadJob_def state_known_def Let_def)
qed

lemma state_known_settled: "state_known w \<Longrightarrow> state_known (settled t w i rd bd)"
proof (cases "loadJob t w rd bd")
  case (Inl reason)
  assume "state_known w"
  then show ?thesis using Inl by (simp add: settled_def setTimeout_def state_known_def)
next
  case (Inr lit)
  assume w: "state_known w"
  have "state_known (setState w lit)"
    using w loadJob_known [OF Inr] by (intro state_known_setState) auto
  then show ?thesis using Inr by (simp add: settled_def setTimeout_def state_known_def)
qed

lemma state_known_step: "state_known w \<Longrightarrow> state_known (step t w e)"
proof (cases e)
  case (Mount rnd)
  assume "state_known w"
  then show ?thesis using Mount by (simp add: componentWillMount_def state_known_triggerLoadJob)
next
  case Unmount
  assume "state_known w"
  then show ?thesis using Unmount
    by (simp add: componentWillUnmount_def clearTimeout_def state_known_def)
next
  case (FetchDone rd bd)
  assume w: "state_known w"
  show ?thesis
  proof (cases "pending w")
    case Nil
    then show ?thesis using w FetchDone by simp
  next
    case (Cons i rest)
    have "state_known (w\<lparr>pending := rest\<rparr>)" using w by (simp add: state_known_def)
    then show ?thesis using Cons FetchDone by (simp add: state_known_settled)
  qed
next
  case (TimerFire h rnd)
  assume w: "state_known w"
  have "state_known (w\<lparr>timers := filter (\<lambda>tm. fst tm \<noteq> h) (timers w)\<rparr>)"
    using w by (simp add: state_known_def)
  then show ?thesis using w TimerFire by (simp add: state_known_triggerLoadJob)
qed

lemma state_known_run: "state_known w \<Longrightarrow> state_known (run t w es)"
  unfolding run_def by (induction es arbitrary: w) (simp_all add: state_known_step)

lemma state_known_created: "state_known (created p)"
  by (simp add: state_known_def created_def)

section \<open>The class name of a tile\<close>

lemma split_on_nonempty: "split_on c xs \<noteq> []"
  by (induction xs) (auto split: list.splits)

lemma split_on_append: "split_on c (xs @ c # ys) = split_on c xs @ split_on c ys"
proof (induction xs)
  case Nil
  show ?case by simp
next
  case (Cons x xs)
  obtain w ws where w: "split_on c xs = w # ws"
    using split_on_nonempty [of c xs] by (cases "split_on c xs") auto
  show ?case using Cons w by simp
qed

lemma split_on_no_sep: "c \<notin> set xs \<Longrightarrow> split_on c xs = [xs]"
  by (induction xs) auto

lemma age_classes_append:
  "age_classes (xs @ CHR '' '' # ys) = age_classes xs @ age_classes ys"
  by (simp add: age_classes_def class_list_def split_on_append)

lemma age_classes_word:
  "CHR '' '' \<notin> set xs \<Longrightarrow> age_classes xs = (if take 4 xs = ''age-'' then [xs] else [])"
  by (auto simp add: age_classes_def class_list_def split_on_no_sep)

lemma known_classes_no_age:
  assumes "known_classes s"
  shows "age_classes (str_of (loadStatus s)) = []" and "age_classes (str_of (buildStatus s)) = []"
  using assms
  by (auto simp add: known_classes_def str_of_def age_classes_word LOADING_def LOADING_DONE_def
      LOADING_ERROR_def STATUS_SUCCESS_def STATUS_WARN_def STATUS_ERROR_def STATUS_NONE_def)

lemma className_renderJob:
  "className (renderJob now job) =
     ''status'' @ CHR '' '' # (str_of (loadStatus job) @ CHR '' '' # (str_of (buildStatus job) @
       (if truthy_bool (building job) then '' building'' else []) @
       (case age_of now job of None \<Rightarrow> []
        | Some a \<Rightarrow> if a \<noteq> 0 then CHR '' '' # (''age-'' @ string_of_int a) else [])))"
  by (simp add: renderJob_def Let_def split: option.splits)

lemma age_classes_tail:
  assumes "age_classes bs = []"
  shows "age_classes (bs @ (if b then '' building'' else []) @
       (case ag of None \<Rightarrow> []
        | Some a \<Rightarrow> if a \<noteq> 0 then CHR '' '' # (''age-'' @ string_of_int a) else []))
     = (case ag of None \<Rightarrow> []
        | Some a \<Rightarrow> if a \<noteq> 0 then age_classes (''age-'' @ string_of_int a) else [])"
proof -
  have building: "age_classes (bs @ '' building'') = []"
    using age_classes_append [of bs "''building''"] assms
    by (simp add: age_classes_word)
  have both: "age_classes ((bs @ '' building'') @ CHR '' '' # zs) = age_classes zs" for zs
    using building by (simp only: age_classes_append) simp
  have one: "age_classes (bs @ CHR '' '' # zs) = age_classes zs" for zs
    using assms by (simp only: age_classes_append) simp
  show ?thesis
    using assms building both one by (cases ag; cases b) auto
qed

lemma age_classes_renderJob:
  assumes "known_classes job"
  shows "age_classes (className (renderJob now job))
      = (case age_of now job of None \<Rightarrow> []
         | Some a \<Rightarrow> if a \<noteq> 0 then age_classes (''age-'' @ string_of_int a) else [])"
proof -
  let ?tail = "(if truthy_bool (building job) then '' building'' else []) @
       (case age_of now job of None \<Rightarrow> []
        | Some a \<Rightarrow> if a \<noteq> 0 then CHR '' '' # (''age-'' @ string_of_int a) else [])"
  have st: "age_classes ''status'' = []"
    by (simp add: age_classes_word)
  have "age_classes (className (renderJob now job))
      = age_classes ''status'' @ age_classes (str_of (loadStatus job))
        @ age_classes (str_of (buildStatus job) @ ?tail)"
    by (simp only: className_renderJob age_classes_append)
  also have "\<dots> = age_classes (str_of (buildStatus job) @ ?tail)"
    using st known_classes_no_age(1) [OF assms] by simp
  also have "\<dots> = (case age_of now job of None \<Rightarrow> []
        | Some a \<Rightarrow> if a \<noteq> 0 then age_classes (''age-'' @ string_of_int a) else [])"
    using known_classes_no_age(2) [OF assms] by (rule age_classes_tail)
  finally show ?thesis .
qed

lemma age_classes_digit:
  assumes "1 \<le> a" "a \<le> 5"
  shows "age_classes (''age-'' @ string_of_int a) = [''age-'' @ string_of_int a]"
  using string_of_int_digit [OF assms] by (auto simp add: age_classes_word)

text \<open>
  Claim C10. In every state the component reaches, the tile of \<open>renderJob\<close> has an age
  class only when the job is not building, has a build timestamp and its age is between
  1 and 5, and the class is then \<open>age-N\<close> for that age and no other; when the job is
  building or its age is 0 the tile has no age class; and a job that is not building
  with an age of at least 1 does get its class.
\<close>

theorem age_class_only_for_ages_1_to_5:
  assumes "state (run t (created p) es) = Some job"
  shows "(age_classes (className (renderJob now job)) \<noteq> [] \<longrightarrow>
            \<not> truthy_bool (building job) \<and> truthy_num (buildTimestamp job)
            \<and> (\<exists>a. age_of now job = Some a \<and> 1 \<le> a \<and> a \<le> 5
                 \<and> age_classes (className (renderJob now job)) = [''age-'' @ string_of_int a]))
       \<and> (truthy_bool (building job) \<or> age_of now job = Some 0 \<longrightarrow>
            age_classes (className (renderJob now job)) = [])
       \<and> (\<forall>a. age_of now job = Some a \<and> 1 \<le> a \<longrightarrow>
            age_classes (className (renderJob now job)) = [''age-'' @ string_of_int a])"
proof -
  have "state_known (run t (created p) es)"
    using state_known_created by (rule state_known_run)
  then have known: "known_classes job"
    using assms by (simp add: state_known_def)
  note cls = age_classes_renderJob [OF known, of now]
  show ?thesis
  proof (cases "age_of now job")
    case None
    then show ?thesis using cls by (simp add: age_of_building)
  next
    case (Some a)
    then have r: "0 \<le> a \<and> a \<le> 5" by (rule age_of_range)
    have nb: "\<not> truthy_bool (building job) \<and> truthy_num (buildTimestamp job)"
      using Some age_of_building [of job now] age_of_no_timestamp [of job now] by auto
    show ?thesis
    proof (cases "a = 0")
      case True
      then show ?thesis using cls Some by simp
    next
      case False
      then have "1 \<le> a" using r by simp
      then show ?thesis using cls Some r nb age_classes_digit [of a] False by simp
    qed
  qed
qed

text \<open>
  A successful job whose build has the timestamp 1000: seven hours later its tile has
  the class \<open>age-1\<close>, at the time of the build it has no age class.
\<close>

theorem age_class_only_for_ages_1_to_5_witness:
  "\<exists>job. state (run example_tables (created example_props)
              [Mount 0, FetchDone (Inr example_job) (Inr example_build)]) = Some job
     \<and> age_of 25201000 job = Some 1
     \<and> age_classes (className (renderJob 25201000 job)) = [''age-1'']
     \<and> age_of 1000 job = Some 0
     \<and> age_classes (className (renderJob 1000 job)) = []"
proof -
  let ?w = "run example_tables (created example_props)
              [Mount 0, FetchDone (Inr example_job) (Inr example_build)]"
  obtain job where st: "state ?w = Some job"
    by (simp add: world_defs example_defs)
  have fields: "building job = Some False" "buildTimestamp job = Some 1000"
    using st by (auto simp add: world_defs example_defs isBuilding_def truthy_bool_def)
  then have nb: "\<not> truthy_bool (building job)" by (simp add: truthy_bool_def)
  have a1: "age_of 25201000 job = Some 1"
    using age_of_age_bucket [OF nb fields(2), of 25201000]
    by (simp add: age_bucket_def ageIntervalMillis_def)
  have a0: "age_of 1000 job = Some 0"
    using age_of_age_bucket [OF nb fields(2), of 1000]
    by (simp add: age_bucket_def ageIntervalMillis_def)
  have one: "string_of_int 1 = ''1''"
    by (simp add: string_of_int_def string_of_nat.simps digit_char_def)
  note thm1 = age_class_only_for_ages_1_to_5 [OF st, of 25201000]
  then have "age_of 25201000 job = Some 1 \<and> (1::int) \<le> 1 \<longrightarrow>
      age_classes (className (renderJob 25201000 job)) = [''age-'' @ string_of_int 1]"
    by blast
  then have c1: "age_classes (className (renderJob 25201000 job)) = [''age-1'']"
    using a1 one by simp
  note thm0 = age_class_only_for_ages_1_to_5 [OF st, of 1000]
  then have "age_of 1000 job = Some 0 \<longrightarrow> age_classes (className (renderJob 1000 job)) = []"
    by blast
  then have c0: "age_classes (className (renderJob 1000 job)) = []"
    using a0 by simp
  show ?thesis using st a1 c1 a0 c0 by simp
qed

section \<open>The request of RestClient\<close>




lemma asRestError_thrown:
  "asRestError u (thrown x) = \<lparr>RestError.url = u, code = ''unknown'', message = Some CHECK_CONSOLE\<rparr>"
  by (simp add: asRestError_def thrown_def truthy_str_def)







text \<open>
  A malformed body is among the rejecting outcomes: on a 200 with a body that is not JSON,
  \<open>JSON.parse\<close> throws inside the callback and the \<open>catch\<close> callback rejects.
\<close>

lemma request_rejects_malformed_body:
  "status example_page = Some \<lparr>status_code = Some 200, status_text = Some ''OK''\<rparr>
   \<and> entity example_page = Some ''<html>''
   \<and> request JSON_parse ''http://ci/job/team/api/json'' (Fulfilled example_page)
     = Inl \<lparr>RestError.url = ''http://ci/job/team/api/json'', code = ''unknown'',
          message = Some CHECK_CONSOLE\<rparr>"
  by (simp add: request_def on_response_def truthy_str_def str_of_def JSON_parse_def
      json_space_def asRestError_thrown example_page_def)

section \<open>The polling cycle\<close>

lemma triggerLoadJob_fields:
  "pending (triggerLoadJob w rnd) = pending w @ [refreshInterval + rnd * 500]"
  "timers (triggerLoadJob w rnd) = timers w"
  "nextHandle (triggerLoadJob w rnd) = nextHandle w"
  "triggerHandle (triggerLoadJob w rnd) = triggerHandle w"
  "props (triggerLoadJob w rnd) = props w"
  "unmounted (triggerLoadJob w rnd) = unmounted w"
  by (simp_all add: triggerLoadJob_def setState_def Let_def)

lemma settled_fields:
  "timers (settled t w i rd bd) = timers w @ [(nextHandle w, i)]"
  "triggerHandle (settled t w i rd bd) = Some (nextHandle w)"
  "nextHandle (settled t w i rd bd) = Suc (nextHandle w)"
  "pending (settled t w i rd bd) = pending w"
  "props (settled t w i rd bd) = props w"
  "unmounted (settled t w i rd bd) = unmounted w"
  by (simp_all add: settled_def setTimeout_def setState_def split: sum.splits)

text \<open>On a mounted widget a failed read of the job sets the two keys of the error state.\<close>

lemma settled_read_failed:
  "\<not> unmounted w \<Longrightarrow>
     \<exists>s. state (settled t w i (Inl err) bd) = Some s \<and> loadStatus s = Some LOADING_ERROR
       \<and> buildStatus s = Some STATUS_NONE"
  by (simp add: settled_def loadJob_def setTimeout_def setState_def)

lemma cycle_fields:
  assumes "pending w = [i]" "timers w = []"
  shows "pending (step t (step t w (FetchDone rd bd)) (TimerFire (nextHandle w) rnd))
           = [refreshInterval + rnd * 500]"
    and "timers (step t (step t w (FetchDone rd bd)) (TimerFire (nextHandle w) rnd)) = []"
    and "nextHandle (step t (step t w (FetchDone rd bd)) (TimerFire (nextHandle w) rnd))
           = Suc (nextHandle w)"
  using assms by (simp_all add: settled_fields triggerLoadJob_fields)

lemma run_cycles:
  "pending w = [i] \<Longrightarrow> timers w = [] \<Longrightarrow>
     (\<exists>i'. pending (run t w (cycles (nextHandle w) fs)) = [i'])
     \<and> timers (run t w (cycles (nextHandle w) fs)) = []
     \<and> nextHandle (run t w (cycles (nextHandle w) fs)) = nextHandle w + length fs"
proof (induction fs arbitrary: w i)
  case Nil
  then show ?case by (simp add: run_def)
next
  case (Cons f fs)
  obtain rd bd rnd where f: "f = (rd, bd, rnd)" by (cases f) auto
  let ?w = "step t (step t w (FetchDone rd bd)) (TimerFire (nextHandle w) rnd)"
  have p: "pending ?w = [refreshInterval + rnd * 500]"
    and tm: "timers ?w = []" and nh: "nextHandle ?w = Suc (nextHandle w)"
    using cycle_fields [OF Cons.prems] by simp_all
  have "run t w (cycles (nextHandle w) (f # fs)) = run t ?w (cycles (nextHandle ?w) fs)"
    by (simp add: f run_def nh del: step.simps)
  then show ?case using Cons.IH [OF p tm] nh by simp
qed

lemma mounted_fields:
  "pending (componentWillMount (created p) rnd) = [refreshInterval + rnd * 500]"
  "timers (componentWillMount (created p) rnd) = []"
  "nextHandle (componentWillMount (created p) rnd) = 1"
  "unmounted (componentWillMount (created p) rnd) = False"
  by (simp_all add: componentWillMount_def triggerLoadJob_fields created_def)

text \<open>
  However a fetch settles, the next call is scheduled with the interval of its cycle; and
  after any sequence of fetches, each followed by its timeout, the next fetch is in
  flight.
\<close>

lemma settled_fetch_reschedules:
  assumes "pending w = interval # rest"
  shows "timers (step t w (FetchDone rd bd)) = timers w @ [(nextHandle w, interval)]
       \<and> triggerHandle (step t w (FetchDone rd bd)) = Some (nextHandle w)"
  using assms by (simp add: settled_fields)

lemma polling_goes_on:
  "pending (run t (componentWillMount (created p) rnd) (cycles 1 fs)) \<noteq> []"
proof -
  let ?m = "componentWillMount (created p) rnd"
  have "\<exists>i'. pending (run t ?m (cycles 1 fs)) = [i']"
    using run_cycles [of ?m _ t fs] by (auto simp add: mounted_fields)
  then show ?thesis by auto
qed

text \<open>
  Claim C1, on the failing input. The first read of a widget returns a response that is
  neither a single job nor a folder: \<open>loadJob\<close> throws, the promise rejects, and the
  \<open>catch\<close> callback of \<open>triggerLoadJob\<close> schedules timeout 1 and sets no state. The state
  keeps \<open>loadStatus\<close> loading, with no \<open>buildStatus\<close>, and \<open>render\<close> returns the loading
  placeholder, not an error tile. A single job whose build cannot be read leaves the same
  state.
\<close>

theorem unsupported_format_keeps_loading_state:
  "\<not> isSingleJob example_view \<and> \<not> isMultiJob example_view
   \<and> state (run example_tables (created example_props)
        [Mount 0, FetchDone (Inr example_view) (Inl example_error)])
     = Some (no_state\<lparr>name := Some ''team'', loadStatus := Some LOADING\<rparr>)
   \<and> LOADING \<noteq> LOADING_ERROR
   \<and> render 0 example_props (state (run example_tables (created example_props)
        [Mount 0, FetchDone (Inr example_view) (Inl example_error)]))
     = Inr (LoadingTile ''status loading'' (Some ''team''))
   \<and> timers (run example_tables (created example_props)
        [Mount 0, FetchDone (Inr example_view) (Inl example_error)]) = [(1, 5000)]
   \<and> isSingleJob example_job
   \<and> state (run example_tables (created example_props)
        [Mount 0, FetchDone (Inr example_job) (Inl example_error)])
     = Some (no_state\<lparr>name := Some ''team'', loadStatus := Some LOADING\<rparr>)"
  by (simp add: world_defs example_defs render_def renderLoading_def str_of_def LOADING_def
      LOADING_ERROR_def)

text \<open>
  Claim C7. In every polling cycle, when the fetch settles, with a state or with a
  failure of any kind, the next call is scheduled once, with the delay
  \<open>refreshInterval + Math.random() * 500\<close> drawn at the start of the cycle, which lies
  between 4500 and 5500 milliseconds (in fact between 5000 and 5500).
\<close>

theorem refresh_delay_in_range:
  assumes "0 \<le> rnd" "rnd < 1" "pending w = []"
  shows "timers (step t (triggerLoadJob w rnd) (FetchDone rd bd))
           = timers w @ [(nextHandle w, refreshInterval + rnd * 500)]
       \<and> triggerHandle (step t (triggerLoadJob w rnd) (FetchDone rd bd)) = Some (nextHandle w)
       \<and> 4500 \<le> refreshInterval + rnd * 500 \<and> refreshInterval + rnd * 500 \<le> 5500"
  using assms by (simp add: triggerLoadJob_fields settled_fields refreshInterval_def)

text \<open>With \<open>Math.random() = 1/2\<close> the first timeout of a widget has the delay 5250.\<close>

theorem refresh_delay_in_range_witness:
  "(0::real) \<le> 1 / 2 \<and> (1::real) / 2 < 1 \<and> pending (created example_props) = []
   \<and> timers (step example_tables (triggerLoadJob (created example_props) (1 / 2))
        (FetchDone (Inl example_error) (Inl example_error))) = [(1, 5250)]
   \<and> timers (step example_tables (triggerLoadJob (created example_props) (1 / 2))
        (FetchDone (Inr example_job) (Inr example_build))) = [(1, 5250)]"
proof -
  have h: "(0::real) \<le> 1 / 2" "(1::real) / 2 < 1" "pending (created example_props) = []"
    by (simp_all add: created_def)
  show ?thesis
    using h refresh_delay_in_range [OF h, of example_tables "Inl example_error" "Inl example_error"]
      refresh_delay_in_range [OF h, of example_tables "Inr example_job" "Inr example_build"]
    by (simp add: created_def refreshInterval_def)
qed

section \<open>The variants of the state\<close>

text \<open>
  \<open>render\<close> returns one element for a state: the tile of a single job when \<open>buildStatus\<close>
  is set, else the children of a folder when \<open>jobs\<close> is set, else the placeholder. The
  state changes only in a step of the polling cycle.
\<close>

lemma render_kind:
  "\<exists>el. render now p (Some s) = Inr el
     \<and> (case el of
           JobTile cn h l pb \<Rightarrow> truthy_str (buildStatus s)
         | MultiJobDiv cs \<Rightarrow> \<not> truthy_str (buildStatus s) \<and> truthy_obj (jobs s)
         | LoadingTile cn l \<Rightarrow> \<not> truthy_str (buildStatus s) \<and> \<not> truthy_obj (jobs s))"
  by (auto simp add: render_def renderJob_def renderMultiJob_def renderLoading_def truthy_obj_def
      Let_def split: option.splits)

lemma step_changes_state:
  "state (step t w e) \<noteq> state w \<Longrightarrow>
     (\<exists>rnd. e = Mount rnd)
     \<or> (\<exists>rd bd i rest. e = FetchDone rd bd \<and> pending w = i # rest)
     \<or> (\<exists>h rnd. e = TimerFire h rnd \<and> h \<in> fst ` set (timers w))"
  by (cases e)
    (auto simp add: componentWillUnmount_def clearTimeout_def split: list.splits if_splits)

text \<open>
  Claim C2, on the failing input. The first read of a folder fails and the retry returns
  the folder: the error state has set \<open>buildStatus\<close>, the folder state adds \<open>jobs\<close>, and
  \<open>setState\<close> merges the two. The state then satisfies the test of \<open>render\<close> for a single
  job and its test for a folder at once.
\<close>

theorem error_then_folder_is_single_and_multi:
  "\<exists>s. state (run example_tables (created example_props)
       [Mount 0, FetchDone (Inl example_error) (Inl example_error), TimerFire 1 0,
        FetchDone (Inr example_folder) (Inl example_error)]) = Some s
     \<and> truthy_str (buildStatus s) \<and> truthy_obj (jobs s)"
  by (simp add: world_defs example_defs STATUS_NONE_def)

section \<open>The children of a folder\<close>

text \<open>
  A folder state without a build status renders one child for each child reference, in
  order, with the server of the parent and the identifier \<open>parentId/job/childName\<close>.
\<close>

lemma render_folder_children:
  assumes "\<not> truthy_str (buildStatus s)" "jobs s = Some items"
  shows "\<exists>cs. render now p (Some s) = Inr (MultiJobDiv cs) \<and> length cs = length items
     \<and> (\<forall>i < length items. server (cs ! i) = server p
           \<and> id (cs ! i) = Some (str_of (id p) @ ''/job/'' @ str_of (ref_name (items ! i))))"
  using assms by (simp add: render_def renderMultiJob_def truthy_obj_def)

text \<open>
  Claim C5, on the failing input. The first read of a folder fails and the retry returns
  the folder with its two children: \<open>render\<close> returns the tile of a single job with the
  class none, and no child component. The error state left \<open>buildStatus\<close> set, and
  \<open>render\<close> tests it before \<open>jobs\<close>.
\<close>

theorem folder_after_error_renders_no_children:
  "isMultiJob example_folder
   \<and> map ref_name (case job_jobs example_folder of None \<Rightarrow> [] | Some js \<Rightarrow> js)
       = [Some ''app'', Some ''lib'']
   \<and> render 0 example_props (state (run example_tables (created example_props)
       [Mount 0, FetchDone (Inl example_error) (Inl example_error), TimerFire 1 0,
        FetchDone (Inr example_folder) (Inl example_error)]))
     = Inr (JobTile ''status loading-done none'' None (Some ''team'') None)"
  by (simp add: world_defs example_defs render_def renderJob_def age_of_def truthy_bool_def
      truthy_num_def str_of_def STATUS_NONE_def LOADING_DONE_def LOADING_ERROR_def LOADING_def)

section \<open>Teardown\<close>

text \<open>
  With no fetch in flight, \<open>componentWillUnmount\<close> removes the timeout of the handle the
  component holds.
\<close>

lemma unmount_clears_timeout:
  "triggerHandle w = Some h \<Longrightarrow> h \<notin> fst ` set (timers (step t w Unmount))"
  by (auto simp add: componentWillUnmount_def clearTimeout_def)

text \<open>
  Claim C3, on the failing input. The widget is unmounted while its first fetch is in
  flight: \<open>clearTimeout\<close> finds no timeout to clear, the fetch settles and schedules
  timeout 1, and when that fires \<open>triggerLoadJob\<close> runs again and the next fetch is in
  flight.
\<close>

theorem unmount_during_fetch_keeps_polling:
  "timers (run example_tables (created example_props) [Mount 0, Unmount]) = []
   \<and> pending (run example_tables (created example_props) [Mount 0, Unmount]) = [5000]
   \<and> timers (run example_tables (created example_props)
       [Mount 0, Unmount, FetchDone (Inr example_folder) (Inl example_error)]) = [(1, 5000)]
   \<and> pending (run example_tables (created example_props)
       [Mount 0, Unmount, FetchDone (Inr example_folder) (Inl example_error), TimerFire 1 0])
     = [5000]"
  by (simp add: world_defs example_defs)

end
